theory Spec2Isabelle
  imports Main
begin

section \<open>Python values used by the insight engine\<close>

text \<open>
  The two source files are \<^verbatim>\<open>app/main.py\<close> (the WebSocket connection manager and the
  telemetry ingestion loop) and \<^verbatim>\<open>app/services/insights.py\<close> (the insights query).
  Python strings are modelled as \<^typ>\<open>string\<close>, Python's unbounded integers as \<^typ>\<open>int\<close>.
  A \<^verbatim>\<open>datetime\<close> is an instant on a linear time axis, modelled as an \<^typ>\<open>int\<close>; the
  standard-library conversions between instants and text are parameters (\<open>pylib\<close> below).
\<close>

type_synonym datetime = int

datatype exn = AttributeError | OverflowError

subsection \<open>String methods\<close>

text \<open>
  \<^verbatim>\<open>str.isspace\<close> on the code points below 256: TAB..CR, FS..US, space, NEL and NBSP.
\<close>

definition py_isspace :: "char \<Rightarrow> bool" where
  "py_isspace c =
     (let n = (of_char c :: nat)
      in (9 \<le> n \<and> n \<le> 13) \<or> (28 \<le> n \<and> n \<le> 32) \<or> n = 133 \<or> n = 160)"

definition py_strip :: "string \<Rightarrow> string" where
  "py_strip s = rev (dropWhile py_isspace (rev (dropWhile py_isspace s)))"

text \<open>
  \<^verbatim>\<open>str.upper\<close>, exact on ASCII. No code point in 128..255 upper-cases to one of the
  letters of \<^verbatim>\<open>POINT\<close>, so the prefix test that uses it is not affected.
\<close>

definition py_upper_char :: "char \<Rightarrow> char" where
  "py_upper_char c =
     (let n = (of_char c :: nat)
      in if 97 \<le> n \<and> n \<le> 122 then char_of (n - 32) else c)"

definition py_upper :: "string \<Rightarrow> string" where
  "py_upper s = map py_upper_char s"

definition startswith :: "string \<Rightarrow> string \<Rightarrow> bool" where
  "startswith s p = (take (length p) s = p)"

definition endswith :: "string \<Rightarrow> string \<Rightarrow> bool" where
  "endswith s p = (drop (length s - length p) s = p \<and> length p \<le> length s)"

text \<open>\<^verbatim>\<open>s.find(c)\<close> for a single character: the first index, or -1.\<close>

fun py_find :: "string \<Rightarrow> char \<Rightarrow> int" where
  "py_find [] c = -1"
| "py_find (x # xs) c =
     (if x = c then 0 else (let i = py_find xs c in if i < 0 then -1 else i + 1))"

text \<open>\<^verbatim>\<open>s[i:-1]\<close> for \<open>i \<ge> 0\<close>: the characters from index \<open>i\<close> up to but excluding the last.\<close>

definition slice_to_last :: "string \<Rightarrow> int \<Rightarrow> string" where
  "slice_to_last s i = drop (nat i) (butlast s)"

definition py_replace_char :: "string \<Rightarrow> char \<Rightarrow> char \<Rightarrow> string" where
  "py_replace_char s a b = map (\<lambda>c. if c = a then b else c) s"

text \<open>
  \<^verbatim>\<open>s.split()\<close> with no argument: the maximal runs of non-whitespace characters.
  \<open>split_ws cur s\<close> carries the run read so far.
\<close>

fun split_ws :: "string \<Rightarrow> string \<Rightarrow> string list" where
  "split_ws cur [] = (if cur = [] then [] else [cur])"
| "split_ws cur (c # cs) =
     (if py_isspace c
      then (if cur = [] then split_ws [] cs else cur # split_ws [] cs)
      else split_ws (cur @ [c]) cs)"

definition py_split :: "string \<Rightarrow> string list" where
  "py_split s = split_ws [] s"

text \<open>
  \<^verbatim>\<open>s.split("|", 1)\<close> unpacked into two names: the text before and after the first bar.
  With no bar the list has one element and the unpacking raises \<^verbatim>\<open>ValueError\<close> (\<open>None\<close>).
\<close>

fun split_bar :: "string \<Rightarrow> (string \<times> string) option" where
  "split_bar [] = None"
| "split_bar (c # cs) =
     (if c = CHR ''|'' then Some ([], cs)
      else (case split_bar cs of None \<Rightarrow> None | Some (a, b) \<Rightarrow> Some (c # a, b)))"

subsection \<open>Integers as text\<close>

text \<open>
  \<^verbatim>\<open>str(n)\<close> for an integer: decimal digits, with a minus sign when negative. (CPython
  refuses to print integers of more than 4300 digits; identifiers assigned by the storage
  are far below that.)
\<close>

definition digit_char :: "nat \<Rightarrow> char" where
  "digit_char d = char_of (48 + d)"

fun str_nat :: "nat \<Rightarrow> string" where
  "str_nat n = (if n < 10 then [digit_char n] else str_nat (n div 10) @ [digit_char (n mod 10)])"

declare str_nat.simps [simp del]

definition py_str :: "int \<Rightarrow> string" where
  "py_str i = (if i < 0 then CHR ''-'' # str_nat (nat (- i)) else str_nat (nat i))"

text \<open>
  \<^verbatim>\<open>int(s)\<close> in base 10: surrounding whitespace is stripped, one sign is allowed, and the
  rest is decimal digits in which single underscores may separate digits. Anything else
  raises \<^verbatim>\<open>ValueError\<close> (\<open>None\<close>).
\<close>

definition is_digit :: "char \<Rightarrow> bool" where
  "is_digit c = (let n = (of_char c :: nat) in 48 \<le> n \<and> n \<le> 57)"

definition digit_val :: "char \<Rightarrow> nat" where
  "digit_val c = of_char c - 48"

text \<open>\<open>digits_ok prev s\<close>: \<open>prev\<close> tells whether the character before \<open>s\<close> was a digit.\<close>

fun digits_ok :: "bool \<Rightarrow> string \<Rightarrow> bool" where
  "digits_ok prev [] = prev"
| "digits_ok prev (c # cs) =
     (if is_digit c then digits_ok True cs
      else if c = CHR ''_'' \<and> prev then digits_ok False cs
      else False)"

definition digits_value :: "string \<Rightarrow> nat" where
  "digits_value s = foldl (\<lambda>a c. 10 * a + digit_val c) 0 (filter is_digit s)"

definition py_int :: "string \<Rightarrow> int option" where
  "py_int s =
     (let t = py_strip s;
          neg = (t \<noteq> [] \<and> hd t = CHR ''-'');
          body = (if t \<noteq> [] \<and> (hd t = CHR ''-'' \<or> hd t = CHR ''+'') then tl t else t)
      in if digits_ok False body
         then Some (if neg then - int (digits_value body) else int (digits_value body))
         else None)"

section \<open>The insights query: parameters and summary modes\<close>

text \<open>The dataclass \<^verbatim>\<open>InsightParams\<close>, with the defaults of its declaration.\<close>

record InsightParams =
  auv_id :: "string option"
  type :: "string option"
  limit :: int
  summary :: bool
  summary_modes :: "string list option"
  window_minutes :: int
  timeseries_limit :: int
  timeseries_fields :: "string list option"
  since :: "datetime option"
  cursor :: "string option"

definition default_params :: InsightParams where
  "default_params =
     \<lparr>auv_id = None, type = None, limit = 20, summary = False, summary_modes = None,
      window_minutes = 20, timeseries_limit = 30, timeseries_fields = None,
      since = None, cursor = None\<rparr>"

definition SUMMARY_MODES_ALLOWED :: "string list" where
  "SUMMARY_MODES_ALLOWED = [''timeseries'', ''stats'']"

definition TIMESERIES_ALLOWED_FIELDS :: "string list" where
  "TIMESERIES_ALLOWED_FIELDS = [''temperature_c'', ''depth_m'', ''velocity_knots'', ''location'']"

text \<open>Truthiness of an optional string and of an optional list: \<^verbatim>\<open>None\<close> and empty are false.\<close>

fun truthy :: "'a list option \<Rightarrow> bool" where
  "truthy None = False"
| "truthy (Some xs) = (xs \<noteq> [])"

fun items :: "'a list option \<Rightarrow> 'a list" where
  "items None = []"
| "items (Some xs) = xs"

text \<open>
  Lines 68--70: \<^verbatim>\<open>for m in summary_modes: if m not in modes: modes.append(m)\<close>.
\<close>

fun append_new :: "string list \<Rightarrow> string list \<Rightarrow> string list" where
  "append_new modes [] = modes"
| "append_new modes (m # ms) =
     append_new (if m \<in> set modes then modes else modes @ [m]) ms"

text \<open>Lines 64--71: the active summary modes.\<close>

definition derive_modes :: "InsightParams \<Rightarrow> string list" where
  "derive_modes p =
     (let modes0 = (if summary p \<and> \<not> truthy (summary_modes p) then [''timeseries''] else []);
          modes1 = (if truthy (summary_modes p)
                    then append_new modes0 (items (summary_modes p)) else modes0)
      in filter (\<lambda>m. m \<in> set SUMMARY_MODES_ALLOWED) modes1)"

text \<open>
  The rule in the words of the specification: the default \<open>{timeseries}\<close> when
  \<open>summary\<close> is set and no mode list is given; otherwise the given list without repeated
  entries (the first occurrence stays), restricted to the allowed modes.
\<close>

fun dedup_first :: "string list \<Rightarrow> string list" where
  "dedup_first [] = []"
| "dedup_first (x # xs) = x # filter (\<lambda>y. y \<noteq> x) (dedup_first xs)"

definition modes_spec :: "InsightParams \<Rightarrow> string list" where
  "modes_spec p =
     (if summary p \<and> \<not> truthy (summary_modes p) then [''timeseries'']
      else filter (\<lambda>m. m = ''timeseries'' \<or> m = ''stats'') (dedup_first (items (summary_modes p))))"

section \<open>The insights query: library, storage and result values\<close>

text \<open>
  The standard-library calls of \<^verbatim>\<open>insights.py\<close>, as parameters. \<open>None\<close> stands for
  the exception the call raises: \<^verbatim>\<open>ValueError\<close> for \<^verbatim>\<open>datetime.fromisoformat\<close> and
  \<^verbatim>\<open>float\<close>, \<^verbatim>\<open>OverflowError\<close> for \<^verbatim>\<open>now - timedelta(minutes=m)\<close>. The type
  \<open>'f\<close> is the type of floating-point values.
\<close>

record 'f pylib =
  isoformat :: "datetime \<Rightarrow> string"
  fromisoformat :: "string \<Rightarrow> datetime option"
  py_float :: "string \<Rightarrow> 'f option"
  minus_minutes :: "datetime \<Rightarrow> int \<Rightarrow> datetime option"

text \<open>
  The two tables the queries read. The columns \<open>started_at\<close>, \<open>timestamp\<close>, the
  measurements and \<open>location_wkt\<close> may be \<^verbatim>\<open>NULL\<close>, as the source's own checks allow.
  \<open>nulls_first\<close> is the storage engine's placement of \<^verbatim>\<open>NULL\<close> under
  \<^verbatim>\<open>ORDER BY ... DESC\<close>, which the source does not fix.
\<close>

record alert_row =
  alert_id :: int
  alert_auv_id :: string
  alert_type :: string
  alert_severity :: string
  alert_status :: string
  alert_message :: string
  alert_started_at :: "datetime option"

record 'f telemetry_row =
  tm_auv_id :: string
  tm_timestamp :: "datetime option"
  tm_temperature_c :: "'f option"
  tm_depth_m :: "'f option"
  tm_velocity_knots :: "'f option"
  tm_location_wkt :: "string option"

record 'f store =
  alerts :: "alert_row list"
  telemetry :: "'f telemetry_row list"
  nulls_first :: bool

text \<open>
  A result row carries the names of the columns of its \<^verbatim>\<open>SELECT\<close> list. Reading an
  attribute that is not among them raises \<^verbatim>\<open>AttributeError\<close>.
\<close>

record 'r row =
  cols :: "string list"
  src :: 'r

definition getattr :: "'r row \<Rightarrow> string \<Rightarrow> ('r \<Rightarrow> 'v) \<Rightarrow> exn + 'v" where
  "getattr r name field =
     (if name \<in> set (cols r) then Inr (field (src r)) else Inl AttributeError)"

fun and_then :: "exn + 'a \<Rightarrow> ('a \<Rightarrow> exn + 'b) \<Rightarrow> exn + 'b" where
  "and_then (Inl e) f = Inl e"
| "and_then (Inr x) f = f x"

text \<open>A loop over rows that builds a list; the first exception leaves the loop.\<close>

fun map_rows :: "('a \<Rightarrow> exn + 'b) \<Rightarrow> 'a list \<Rightarrow> exn + 'b list" where
  "map_rows f [] = Inr []"
| "map_rows f (x # xs) =
     and_then (f x) (\<lambda>y. and_then (map_rows f xs) (\<lambda>ys. Inr (y # ys)))"

text \<open>The values of the response; a dictionary keeps its keys in insertion order.\<close>

datatype 'f pyval =
    PNone
  | PInt int
  | PStr string
  | PFloat 'f
  | PList "'f pyval list"
  | PDict "(string \<times> 'f pyval) list"

fun dict_set :: "(string \<times> 'v) list \<Rightarrow> string \<Rightarrow> 'v \<Rightarrow> (string \<times> 'v) list" where
  "dict_set [] k v = [(k, v)]"
| "dict_set ((k', v') # d) k v =
     (if k' = k then (k, v) # d else (k', v') # dict_set d k v)"

definition has_key :: "(string \<times> 'v) list \<Rightarrow> string \<Rightarrow> bool" where
  "has_key d k = (k \<in> set (map fst d))"

fun opt_float :: "'f option \<Rightarrow> 'f pyval" where
  "opt_float None = PNone"
| "opt_float (Some x) = PFloat x"

fun opt_iso :: "'f pylib \<Rightarrow> datetime option \<Rightarrow> 'f pyval" where
  "opt_iso lib None = PNone"
| "opt_iso lib (Some t) = PStr (isoformat lib t)"

section \<open>The insights query: alert listing and pagination cursor\<close>

text \<open>
  Line 124, the cursor text \<^verbatim>\<open>f"{last.started_at.isoformat()}|{last.id}"\<close>, and lines
  87--89, its decoding. \<open>None\<close> is any exception of the \<^verbatim>\<open>try\<close> block, which the
  \<^verbatim>\<open>except Exception: pass\<close> swallows.
\<close>

definition encode_cursor :: "'f pylib \<Rightarrow> datetime \<Rightarrow> int \<Rightarrow> string" where
  "encode_cursor lib started_at i = isoformat lib started_at @ ''|'' @ py_str i"

definition decode_cursor :: "'f pylib \<Rightarrow> string \<Rightarrow> (datetime \<times> int) option" where
  "decode_cursor lib c =
     (case split_bar c of
        None \<Rightarrow> None
      | Some (c_time, c_id) \<Rightarrow>
          (case fromisoformat lib c_time of
             None \<Rightarrow> None
           | Some c_dt \<Rightarrow>
               (case py_int c_id of
                  None \<Rightarrow> None
                | Some c_id_int \<Rightarrow> Some (c_dt, c_id_int))))"

text \<open>
  Lines 74--94. Each entry of \<^verbatim>\<open>filters\<close> is kept with the parameters it binds:
  \<^verbatim>\<open>auv_id = :auv_id\<close>, \<^verbatim>\<open>type = :type\<close>, \<^verbatim>\<open>started_at > :since\<close> and the cursor
  clause \<^verbatim>\<open>(started_at < :c OR (started_at = :c AND id < :cursor_id))\<close>.
\<close>

datatype filter_clause =
    AuvIdEq string
  | TypeEq string
  | StartedAfter datetime
  | BeforeCursor datetime int

definition cursor_filters :: "'f pylib \<Rightarrow> string option \<Rightarrow> filter_clause list" where
  "cursor_filters lib c =
     (if truthy c
      then (case decode_cursor lib (items c) of
              None \<Rightarrow> []
            | Some (c_dt, c_id_int) \<Rightarrow> [BeforeCursor c_dt c_id_int])
      else [])"

definition alert_filters :: "'f pylib \<Rightarrow> InsightParams \<Rightarrow> filter_clause list" where
  "alert_filters lib p =
     (if truthy (auv_id p) then [AuvIdEq (items (auv_id p))] else []) @
     (if truthy (type p) then [TypeEq (items (type p))] else []) @
     (case since p of None \<Rightarrow> [] | Some s \<Rightarrow> [StartedAfter s]) @
     cursor_filters lib (cursor p)"

text \<open>
  The meaning of a clause on a stored alert. A comparison with \<^verbatim>\<open>NULL\<close> is not true,
  so \<^verbatim>\<open>WHERE\<close> drops the row.
\<close>

fun clause_holds :: "filter_clause \<Rightarrow> alert_row \<Rightarrow> bool" where
  "clause_holds (AuvIdEq a) r = (alert_auv_id r = a)"
| "clause_holds (TypeEq t) r = (alert_type r = t)"
| "clause_holds (StartedAfter s) r =
     (case alert_started_at r of None \<Rightarrow> False | Some t \<Rightarrow> s < t)"
| "clause_holds (BeforeCursor c i) r =
     (case alert_started_at r of
        None \<Rightarrow> False
      | Some t \<Rightarrow> t < c \<or> (t = c \<and> alert_id r < i))"

text \<open>
  \<^verbatim>\<open>ORDER BY started_at DESC, id DESC\<close>: \<open>alert_before nf r1 r2\<close> holds when \<open>r1\<close>
  may stand before \<open>r2\<close>.
\<close>

definition alert_before :: "bool \<Rightarrow> alert_row \<Rightarrow> alert_row \<Rightarrow> bool" where
  "alert_before nf r1 r2 =
     (case (alert_started_at r1, alert_started_at r2) of
        (Some a, Some b) \<Rightarrow> b < a \<or> (a = b \<and> alert_id r2 \<le> alert_id r1)
      | (None, Some b) \<Rightarrow> nf
      | (Some a, None) \<Rightarrow> \<not> nf
      | (None, None) \<Rightarrow> alert_id r2 \<le> alert_id r1)"

fun insert_by :: "('a \<Rightarrow> 'a \<Rightarrow> bool) \<Rightarrow> 'a \<Rightarrow> 'a list \<Rightarrow> 'a list" where
  "insert_by le x [] = [x]"
| "insert_by le x (y # ys) = (if le x y then x # y # ys else y # insert_by le x ys)"

definition order_by :: "('a \<Rightarrow> 'a \<Rightarrow> bool) \<Rightarrow> 'a list \<Rightarrow> 'a list" where
  "order_by le xs = foldr (insert_by le) xs []"

definition ALERT_COLUMNS :: "string list" where
  "ALERT_COLUMNS = [''auv_id'', ''type'', ''severity'', ''status'', ''message'', ''started_at'']"

text \<open>
  Lines 96--109: \<^verbatim>\<open>SELECT auv_id, type, severity, status, message, started_at FROM alerts
  WHERE ... ORDER BY started_at DESC, id DESC LIMIT :limit\<close>.
\<close>

definition alerts_query :: "'f store \<Rightarrow> filter_clause list \<Rightarrow> int \<Rightarrow> alert_row row list" where
  "alerts_query db filters lim =
     map (\<lambda>r. \<lparr>cols = ALERT_COLUMNS, src = r\<rparr>)
       (take (nat lim)
         (order_by (alert_before (nulls_first db))
           (filter (\<lambda>r. list_all (\<lambda>c. clause_holds c r) filters) (alerts db))))"

text \<open>Lines 111--120: the dictionary appended to \<^verbatim>\<open>alerts\<close> for one row.\<close>

definition alert_dict :: "'f pylib \<Rightarrow> alert_row row \<Rightarrow> exn + 'f pyval" where
  "alert_dict lib r =
     and_then (getattr r ''auv_id'' alert_auv_id) (\<lambda>v_auv_id.
     and_then (getattr r ''type'' alert_type) (\<lambda>v_type.
     and_then (getattr r ''severity'' alert_severity) (\<lambda>v_severity.
     and_then (getattr r ''status'' alert_status) (\<lambda>v_status.
     and_then (getattr r ''message'' alert_message) (\<lambda>v_message.
     and_then (getattr r ''started_at'' alert_started_at) (\<lambda>v_started_at.
       Inr (PDict [(''auv_id'', PStr v_auv_id), (''type'', PStr v_type),
                   (''severity'', PStr v_severity), (''status'', PStr v_status),
                   (''message'', PStr v_message),
                   (''started_at'', opt_iso lib v_started_at)])))))))"

text \<open>
  Lines 121--124: the cursor of the next page, built from the last row when the page is
  full and that row has a \<open>started_at\<close>.
\<close>

definition next_cursor_of :: "'f pylib \<Rightarrow> alert_row row list \<Rightarrow> int \<Rightarrow> exn + string option" where
  "next_cursor_of lib rows lim =
     (if rows \<noteq> [] \<and> int (length rows) = lim
      then and_then (getattr (last rows) ''started_at'' alert_started_at) (\<lambda>sa.
             (case sa of
                None \<Rightarrow> Inr None
              | Some t \<Rightarrow>
                  and_then (getattr (last rows) ''id'' alert_id) (\<lambda>i.
                    Inr (Some (encode_cursor lib t i)))))
      else Inr None)"

text \<open>Lines 73--128: the dictionary \<^verbatim>\<open>out\<close> after the alert listing.\<close>

definition alert_listing :: "'f pylib \<Rightarrow> 'f store \<Rightarrow> InsightParams \<Rightarrow> exn + (string \<times> 'f pyval) list" where
  "alert_listing lib db p =
     (let rows = alerts_query db (alert_filters lib p) (limit p)
      in and_then (map_rows (alert_dict lib) rows) (\<lambda>alert_dicts.
         and_then (next_cursor_of lib rows (limit p)) (\<lambda>next_cursor.
           Inr ([(''alerts'', PList alert_dicts)] @
                (if truthy next_cursor
                 then [(''pagination'', PDict [(''next_cursor'', PStr (items next_cursor))])]
                 else [])))))"

section \<open>The insights query: summaries\<close>

text \<open>Lines 35--51, \<^verbatim>\<open>_parse_point_wkt\<close>.\<close>

definition parse_point_wkt :: "'f pylib \<Rightarrow> string option \<Rightarrow> ('f \<times> 'f) option" where
  "parse_point_wkt lib wkt0 =
     (if \<not> truthy wkt0 then None
      else
        (let wkt = py_strip (items wkt0)
         in if \<not> (startswith (py_upper wkt) ''POINT('' \<and> endswith wkt '')'') then None
            else
              (let inner = slice_to_last wkt (py_find wkt (CHR ''('') + 1);
                   parts = py_split (py_replace_char inner (CHR '','') (CHR '' ''))
               in (case parts of
                     [p0, p1] \<Rightarrow>
                       (case py_float lib p0 of
                          None \<Rightarrow> None
                        | Some lon \<Rightarrow>
                            (case py_float lib p1 of
                               None \<Rightarrow> None
                             | Some lat \<Rightarrow> Some (lon, lat)))
                   | _ \<Rightarrow> None))))"

text \<open>
  Lines 140--143. \<^verbatim>\<open>list(TIMESERIES_ALLOWED_FIELDS)\<close> lists a set, in an order Python
  does not fix; the order of the set's display is used here.
\<close>

definition requested_fields :: "InsightParams \<Rightarrow> string list" where
  "requested_fields p =
     (if truthy (timeseries_fields p)
      then filter (\<lambda>f. f \<in> set TIMESERIES_ALLOWED_FIELDS) (items (timeseries_fields p))
      else TIMESERIES_ALLOWED_FIELDS)"

definition TELEMETRY_COLUMNS :: "string list" where
  "TELEMETRY_COLUMNS =
     [''timestamp'', ''temperature_c'', ''depth_m'', ''velocity_knots'', ''location_wkt'']"

definition timestamp_before :: "'f telemetry_row \<Rightarrow> 'f telemetry_row \<Rightarrow> bool" where
  "timestamp_before r1 r2 =
     (case (tm_timestamp r1, tm_timestamp r2) of
        (Some a, Some b) \<Rightarrow> a \<le> b
      | _ \<Rightarrow> True)"

text \<open>
  Lines 144--160: \<^verbatim>\<open>SELECT timestamp, temperature_c, depth_m, velocity_knots, location_wkt
  FROM telemetry WHERE auv_id = :auv_id AND timestamp >= :window_start
  ORDER BY timestamp ASC LIMIT :ts_limit\<close>.
\<close>

definition telemetry_query ::
  "'f store \<Rightarrow> string \<Rightarrow> datetime \<Rightarrow> int \<Rightarrow> 'f telemetry_row row list" where
  "telemetry_query db auv window_start ts_limit =
     map (\<lambda>r. \<lparr>cols = TELEMETRY_COLUMNS, src = r\<rparr>)
       (take (nat ts_limit)
         (order_by timestamp_before
           (filter (\<lambda>r. tm_auv_id r = auv \<and>
                        (case tm_timestamp r of None \<Rightarrow> False | Some t \<Rightarrow> window_start \<le> t))
              (telemetry db))))"

text \<open>Lines 162--173: the point built for one telemetry row.\<close>

definition set_field ::
  "string list \<Rightarrow> string \<Rightarrow> exn + 'f pyval \<Rightarrow> (string \<times> 'f pyval) list
   \<Rightarrow> exn + (string \<times> 'f pyval) list" where
  "set_field req k v pt =
     (if k \<in> set req then and_then v (\<lambda>x. Inr (dict_set pt k x)) else Inr pt)"

definition location_value :: "('f \<times> 'f) option \<Rightarrow> 'f pyval" where
  "location_value ll =
     (case ll of
        Some (lon, lat) \<Rightarrow> PDict [(''lon'', PFloat lon), (''lat'', PFloat lat)]
      | None \<Rightarrow> PNone)"

definition make_point :: "'f pylib \<Rightarrow> string list \<Rightarrow> 'f telemetry_row row \<Rightarrow> exn + 'f pyval" where
  "make_point lib req r =
     and_then (getattr r ''location_wkt'' tm_location_wkt) (\<lambda>wkt.
     and_then (getattr r ''timestamp'' tm_timestamp) (\<lambda>ts.
     and_then (set_field req ''temperature_c''
                 (and_then (getattr r ''temperature_c'' tm_temperature_c) (\<lambda>v. Inr (opt_float v)))
                 [(''timestamp'', opt_iso lib ts)]) (\<lambda>pt1.
     and_then (set_field req ''depth_m''
                 (and_then (getattr r ''depth_m'' tm_depth_m) (\<lambda>v. Inr (opt_float v))) pt1) (\<lambda>pt2.
     and_then (set_field req ''velocity_knots''
                 (and_then (getattr r ''velocity_knots'' tm_velocity_knots) (\<lambda>v. Inr (opt_float v)))
                 pt2) (\<lambda>pt3.
     and_then (set_field req ''location''
                 (Inr (location_value (parse_point_wkt lib wkt))) pt3) (\<lambda>pt4.
       Inr (PDict pt4)))))))"

text \<open>Lines 136--180: the entries the \<open>timeseries\<close> mode adds to \<^verbatim>\<open>summaries\<close>.\<close>

definition timeseries_part ::
  "'f pylib \<Rightarrow> 'f store \<Rightarrow> InsightParams \<Rightarrow> datetime \<Rightarrow> exn + (string \<times> 'f pyval) list" where
  "timeseries_part lib db p window_start =
     (if \<not> truthy (auv_id p)
      then Inr [(''timeseries_error'', PStr ''timeseries summary requires auv_id'')]
      else
        and_then (map_rows (make_point lib (requested_fields p))
                    (telemetry_query db (items (auv_id p)) window_start (timeseries_limit p)))
          (\<lambda>points.
            Inr [(''timeseries'',
                  PDict [(''auv_id'', PStr (items (auv_id p))),
                         (''window_minutes'', PInt (window_minutes p)),
                         (''fields'', PList (map PStr (requested_fields p))),
                         (''points'', PList points),
                         (''count'', PInt (int (length points)))])]))"

text \<open>
  Lines 182--222, the \<open>stats\<close> mode: two aggregate queries over the alerts that match the
  vehicle and type filters. \<^verbatim>\<open>SUM\<close> and \<^verbatim>\<open>MAX\<close> over no rows are \<^verbatim>\<open>NULL\<close>.
\<close>

definition stats_filters :: "InsightParams \<Rightarrow> filter_clause list" where
  "stats_filters p =
     (if truthy (auv_id p) then [AuvIdEq (items (auv_id p))] else []) @
     (if truthy (type p) then [TypeEq (items (type p))] else [])"

definition in_window :: "datetime \<Rightarrow> alert_row \<Rightarrow> bool" where
  "in_window window_start r =
     (case alert_started_at r of None \<Rightarrow> False | Some t \<Rightarrow> window_start \<le> t)"

fun max_started_at :: "alert_row list \<Rightarrow> datetime option" where
  "max_started_at [] = None"
| "max_started_at (r # rs) =
     (case (alert_started_at r, max_started_at rs) of
        (None, m) \<Rightarrow> m
      | (Some t, None) \<Rightarrow> Some t
      | (Some t, Some m) \<Rightarrow> Some (max t m))"

definition stats_summary :: "'f pylib \<Rightarrow> 'f store \<Rightarrow> InsightParams \<Rightarrow> datetime \<Rightarrow> 'f pyval" where
  "stats_summary lib db p window_start =
     (let matching = filter (\<lambda>r. list_all (\<lambda>c. clause_holds c r) (stats_filters p)) (alerts db)
      in PDict
           [(''window_minutes'', PInt (window_minutes p)),
            (''total_alerts'', PInt (int (length matching))),
            (''alerts_in_window'',
               (if matching = [] then PNone
                else PInt (int (length (filter (in_window window_start) matching))))),
            (''latest_alert_timestamp'', opt_iso lib (max_started_at matching)),
            (''alerts_by_type'',
               PDict (map (\<lambda>t. (t, PInt (int (length (filter (\<lambda>r. alert_type r = t) matching)))))
                        (remdups (map alert_type matching))))])"

section \<open>The insights query: the whole function\<close>

text \<open>Lines 129--225: the summaries, when a mode is active.\<close>

definition with_summaries ::
  "'f pylib \<Rightarrow> 'f store \<Rightarrow> datetime \<Rightarrow> InsightParams \<Rightarrow> string list
   \<Rightarrow> (string \<times> 'f pyval) list \<Rightarrow> exn + 'f pyval" where
  "with_summaries lib db now p modes out =
     (if modes = [] then Inr (PDict out)
      else
        (case minus_minutes lib now (window_minutes p) of
           None \<Rightarrow> Inl OverflowError
         | Some window_start \<Rightarrow>
             and_then (if ''timeseries'' \<in> set modes
                       then timeseries_part lib db p window_start else Inr [])
               (\<lambda>s1.
                 Inr (PDict (dict_set out ''summaries''
                   (PDict (if ''stats'' \<in> set modes
                           then dict_set s1 ''stats'' (stats_summary lib db p window_start)
                           else s1)))))))"

text \<open>
  \<^verbatim>\<open>fetch_insights\<close>. Lines 61--62 assign the clamped limits to the fields of the
  caller's \<^verbatim>\<open>InsightParams\<close> object, so the function returns that object as it is after
  the call, together with the result or the exception.
\<close>

definition fetch_insights ::
  "'f pylib \<Rightarrow> 'f store \<Rightarrow> datetime \<Rightarrow> InsightParams \<Rightarrow> InsightParams \<times> (exn + 'f pyval)" where
  "fetch_insights lib db now insight_params =
     (let p = insight_params
                \<lparr>limit := max 1 (min (limit insight_params) 100),
                 timeseries_limit := max 10 (min (timeseries_limit insight_params) 2000)\<rparr>;
          modes = derive_modes p
      in (p, and_then (alert_listing lib db p) (with_summaries lib db now p modes)))"

section \<open>The connection manager\<close>

text \<open>
  \<^verbatim>\<open>ConnectionManager\<close> of \<^verbatim>\<open>main.py\<close>. A WebSocket is known by its identity (Starlette
  compares connections by identity). What a WebSocket does when called is the environment:
  whether \<^verbatim>\<open>accept()\<close> returns, the \<^verbatim>\<open>client_state\<close> it reports, and whether
  \<^verbatim>\<open>send_json\<close> returns or raises an \<^verbatim>\<open>Exception\<close>.
\<close>

type_synonym websocket = nat

datatype WebSocketState = CONNECTING | CONNECTED | DISCONNECTED | RESPONSE

record ws_env =
  accept_ok :: "websocket \<Rightarrow> bool"
  client_state :: "websocket \<Rightarrow> WebSocketState"
  send_json_ok :: "websocket \<Rightarrow> bool"

text \<open>
  The manager's fields are \<open>active_connections\<close> and the lock \<^verbatim>\<open>_lock\<close>, an
  \<^verbatim>\<open>asyncio.Lock\<close>; \<open>locked\<close> tells whether it is held. \<open>delivered\<close> records the
  \<^verbatim>\<open>send_json\<close> calls that returned, in order: what the subscribers received.
\<close>

record 'm manager =
  active_connections :: "websocket list"
  locked :: bool
  delivered :: "(websocket \<times> 'm) list"


text \<open>
  A call returns, raises, or never returns. \<^verbatim>\<open>asyncio.Lock\<close> is not reentrant and has no
  owner: \<^verbatim>\<open>acquire\<close> on a held lock waits until some task releases it. In this program
  a lock is released only by the task that holds it, at the end of its
  \<^verbatim>\<open>async with\<close> block; a task that waits for the lock while holding it waits for ever.
\<close>

datatype outcome = Returned | Raised | Blocked

text \<open>\<^verbatim>\<open>async with self._lock: body\<close>.\<close>

definition with_lock ::
  "'m manager \<Rightarrow> ('m manager \<Rightarrow> outcome \<times> 'm manager) \<Rightarrow> outcome \<times> 'm manager" where
  "with_lock m body =
     (if locked m then (Blocked, m)
      else (case body (m\<lparr>locked := True\<rparr>) of
              (Blocked, m') \<Rightarrow> (Blocked, m')
            | (res, m') \<Rightarrow> (res, m'\<lparr>locked := False\<rparr>)))"


text \<open>Lines 45--49. \<^verbatim>\<open>list.remove\<close> removes the first occurrence.\<close>

definition disconnect :: "websocket \<Rightarrow> 'm manager \<Rightarrow> outcome \<times> 'm manager" where
  "disconnect websocket m =
     with_lock m (\<lambda>m1.
       (Returned,
        if websocket \<in> set (active_connections m1)
        then m1\<lparr>active_connections := remove1 websocket (active_connections m1)\<rparr>
        else m1))"

text \<open>
  Lines 53--60, the sending loop of \<^verbatim>\<open>broadcast\<close>: the pair of the deliveries made and
  the list \<^verbatim>\<open>disconnected\<close>.
\<close>

fun send_all ::
  "ws_env \<Rightarrow> 'm \<Rightarrow> websocket list \<Rightarrow> (websocket \<times> 'm) list \<times> websocket list" where
  "send_all env message [] = ([], [])"
| "send_all env message (connection # rest) =
     (let (sent, disconnected) = send_all env message rest
      in if client_state env connection = CONNECTED
         then (if send_json_ok env connection
               then ((connection, message) # sent, disconnected)
               else (sent, connection # disconnected))
         else (sent, disconnected))"

text \<open>Lines 63--64: \<^verbatim>\<open>for conn in disconnected: await self.disconnect(conn)\<close>.\<close>

fun disconnect_each :: "websocket list \<Rightarrow> 'm manager \<Rightarrow> outcome \<times> 'm manager" where
  "disconnect_each [] m = (Returned, m)"
| "disconnect_each (conn # rest) m =
     (case disconnect conn m of
        (Returned, m') \<Rightarrow> disconnect_each rest m'
      | (res, m') \<Rightarrow> (res, m'))"

text \<open>Lines 51--64. The clean-up loop runs inside the \<^verbatim>\<open>async with\<close> block.\<close>

definition broadcast :: "ws_env \<Rightarrow> 'm \<Rightarrow> 'm manager \<Rightarrow> outcome \<times> 'm manager" where
  "broadcast env message m =
     with_lock m (\<lambda>m1.
       (let (sent, disconnected) = send_all env message (active_connections m1)
        in disconnect_each disconnected (m1\<lparr>delivered := delivered m1 @ sent\<rparr>)))"





section \<open>The telemetry ingestion loop\<close>











section \<open>Reference notions and concrete inputs\<close>



text \<open>
  Subscribers 1 and 2 are both in state \<open>CONNECTED\<close> and accepted; \<^verbatim>\<open>send_json\<close> raises
  for subscriber 1.
\<close>

definition flaky_env :: ws_env where
  "flaky_env =
     \<lparr>accept_ok = (\<lambda>w. True), client_state = (\<lambda>w. CONNECTED), send_json_ok = (\<lambda>w. w \<noteq> 1)\<rparr>"

text \<open>Subscriber 1 is already in state \<open>DISCONNECTED\<close>; every other one is healthy.\<close>

definition gone_env :: ws_env where
  "gone_env =
     \<lparr>accept_ok = (\<lambda>w. True),
      client_state = (\<lambda>w. if w = 1 then DISCONNECTED else CONNECTED),
      send_json_ok = (\<lambda>w. True)\<rparr>"

text \<open>
  The alerts of one page before their columns are selected, and the dictionary of one
  alert in closed form.
\<close>

definition alert_json :: "'f pylib \<Rightarrow> alert_row \<Rightarrow> 'f pyval" where
  "alert_json lib r =
     PDict [(''auv_id'', PStr (alert_auv_id r)), (''type'', PStr (alert_type r)),
            (''severity'', PStr (alert_severity r)), (''status'', PStr (alert_status r)),
            (''message'', PStr (alert_message r)),
            (''started_at'', opt_iso lib (alert_started_at r))]"

definition matching_alerts :: "'f store \<Rightarrow> filter_clause list \<Rightarrow> int \<Rightarrow> alert_row list" where
  "matching_alerts db filters lim =
     take (nat lim) (order_by (alert_before (nulls_first db))
       (filter (\<lambda>r. list_all (\<lambda>c. clause_holds c r) filters) (alerts db)))"

text \<open>
  The point of one telemetry row in closed form: the \<open>timestamp\<close> entry, then one entry
  for each requested field, in the order of the source's tests.
\<close>

definition point_dict :: "'f pylib \<Rightarrow> string list \<Rightarrow> 'f telemetry_row \<Rightarrow> (string \<times> 'f pyval) list" where
  "point_dict lib req r =
     [(''timestamp'', opt_iso lib (tm_timestamp r))] @
     (if ''temperature_c'' \<in> set req
      then [(''temperature_c'', opt_float (tm_temperature_c r))] else []) @
     (if ''depth_m'' \<in> set req then [(''depth_m'', opt_float (tm_depth_m r))] else []) @
     (if ''velocity_knots'' \<in> set req
      then [(''velocity_knots'', opt_float (tm_velocity_knots r))] else []) @
     (if ''location'' \<in> set req
      then [(''location'', location_value (parse_point_wkt lib (tm_location_wkt r)))] else [])"

text \<open>
  The encoding \<^verbatim>\<open>POINT(lon lat)\<close> of two numerals, and what a numeral may not contain to
  stay one word of the text: whitespace and commas.
\<close>

definition point_text :: "string \<Rightarrow> string \<Rightarrow> string" where
  "point_text a b = ''POINT('' @ a @ '' '' @ b @ '')''"

definition word :: "string \<Rightarrow> bool" where
  "word s = (s \<noteq> [] \<and> list_all (\<lambda>c. \<not> py_isspace c \<and> c \<noteq> CHR '','') s)"

text \<open>
  A small library for concrete evaluations: an instant is printed as its number, a
  floating-point value is kept as its numeral, and a minute has sixty units.
\<close>

definition demo_lib :: "string pylib" where
  "demo_lib =
     \<lparr>isoformat = py_str,
      fromisoformat = py_int,
      py_float = (\<lambda>s. if s \<noteq> [] \<and> list_all (\<lambda>c. is_digit c \<or> c = CHR ''.'' \<or> c = CHR ''-'') s
                      then Some s else None),
      minus_minutes = (\<lambda>t m. Some (t - 60 * m))\<rparr>"

definition mk_alert :: "int \<Rightarrow> datetime \<Rightarrow> alert_row" where
  "mk_alert i t =
     \<lparr>alert_id = i, alert_auv_id = ''auv-1'', alert_type = ''environmental'',
      alert_severity = ''high'', alert_status = ''open'', alert_message = ''limit exceeded'',
      alert_started_at = Some t\<rparr>"

text \<open>
  The alerts of the specification's example: ids 40, 30, 20, 10 with start times
  \<open>T3, T2, T2, T1\<close>, here 3, 2, 2, 1, stored in the order of their ids.
\<close>

definition example_store :: "'f store" where
  "example_store =
     \<lparr>alerts = [mk_alert 10 1, mk_alert 20 2, mk_alert 30 2, mk_alert 40 3],
      telemetry = [], nulls_first = True\<rparr>"

definition one_alert_store :: "'f store" where
  "one_alert_store = \<lparr>alerts = [mk_alert 10 1], telemetry = [], nulls_first = True\<rparr>"

definition empty_store :: "'f store" where
  "empty_store = \<lparr>alerts = [], telemetry = [], nulls_first = True\<rparr>"

text \<open>A telemetry row whose location is not a point, and one whose location is.\<close>

definition garbage_row :: "string telemetry_row" where
  "garbage_row =
     \<lparr>tm_auv_id = ''auv-1'', tm_timestamp = Some 100, tm_temperature_c = Some ''4.5'',
      tm_depth_m = None, tm_velocity_knots = None, tm_location_wkt = Some ''GARBAGE''\<rparr>"

definition point_row :: "string telemetry_row" where
  "point_row =
     \<lparr>tm_auv_id = ''auv-1'', tm_timestamp = Some 101, tm_temperature_c = None,
      tm_depth_m = None, tm_velocity_knots = None,
      tm_location_wkt = Some ''POINT(12.5 -3.2)''\<rparr>"

definition telemetry_store :: "string store" where
  "telemetry_store = \<lparr>alerts = [], telemetry = [point_row, garbage_row], nulls_first = True\<rparr>"

section \<open>Summary modes: proofs\<close>

lemma append_new_eq: "distinct acc \<Longrightarrow> append_new acc ms = acc @ filter (\<lambda>m. m \<notin> set acc) (dedup_first ms)"
proof (induction ms arbitrary: acc)
  case Nil
  then show ?case by simp
next
  case (Cons m ms)
  show ?case
  proof (cases "m \<in> set acc")
    case True
    have "filter (\<lambda>x. x \<notin> set acc) (filter (\<lambda>y. y \<noteq> m) (dedup_first ms))
          = filter (\<lambda>x. x \<notin> set acc) (dedup_first ms)"
      using True by (auto intro: filter_cong)
    with True Cons show ?thesis by simp
  next
    case False
    have d: "distinct (acc @ [m])" using False Cons.prems by simp
    have "filter (\<lambda>x. x \<notin> set (acc @ [m])) (dedup_first ms)
          = filter (\<lambda>x. x \<notin> set acc) (filter (\<lambda>y. y \<noteq> m) (dedup_first ms))"
      by (auto intro: filter_cong)
    with False Cons.IH [OF d] show ?thesis by simp
  qed
qed

lemma append_new_Nil: "append_new [] ms = dedup_first ms"
  using append_new_eq [of "[]" ms] by simp

text \<open>
  Claim C5. The active summary modes computed by \<open>fetch_insights\<close> are \<open>[timeseries]\<close>
  when \<open>summary\<close> is true and no mode list is given, and otherwise the client's list,
  de-duplicated keeping the first occurrence and restricted to \<open>timeseries\<close> and
  \<open>stats\<close>; unknown modes are dropped and nothing is raised. The list
  \<open>[stats, timeseries, bogus]\<close> with \<open>summary = false\<close> activates \<open>[stats, timeseries]\<close>.
\<close>

theorem derive_modes_spec:
  "derive_modes p = modes_spec p \<and>
   derive_modes (default_params\<lparr>summary := False,
       summary_modes := Some [''stats'', ''timeseries'', ''bogus'']\<rparr>) = [''stats'', ''timeseries'']"
proof
  show "derive_modes p = modes_spec p"
    by (cases "summary_modes p")
       (auto simp: derive_modes_def modes_spec_def SUMMARY_MODES_ALLOWED_def append_new_Nil
             intro: filter_cong)
  show "derive_modes (default_params\<lparr>summary := False,
       summary_modes := Some [''stats'', ''timeseries'', ''bogus'']\<rparr>) = [''stats'', ''timeseries'']"
    by (simp add: derive_modes_def default_params_def SUMMARY_MODES_ALLOWED_def)
qed

section \<open>The connection manager: proofs\<close>

lemma disconnect_locked: "locked m \<Longrightarrow> disconnect w m = (Blocked, m)"
  by (simp add: disconnect_def with_lock_def)

lemma disconnect_each_locked:
  "locked m \<Longrightarrow> disconnect_each ws m = (if ws = [] then (Returned, m) else (Blocked, m))"
  by (cases ws) (simp_all add: disconnect_locked)

lemma send_all_fst:
  "fst (send_all env msg ws) =
     map (\<lambda>w. (w, msg)) (filter (\<lambda>w. client_state env w = CONNECTED \<and> send_json_ok env w) ws)"
  by (induction ws) (simp_all add: split_def Let_def)

lemma send_all_snd:
  "snd (send_all env msg ws) =
     filter (\<lambda>w. client_state env w = CONNECTED \<and> \<not> send_json_ok env w) ws"
  by (induction ws) (simp_all add: split_def Let_def)

text \<open>
  What \<open>broadcast\<close> does on a free lock: every connected subscriber whose send succeeds
  receives the message; when no send failed the call returns, and when one failed the
  clean-up waits for the lock that \<open>broadcast\<close> itself holds.
\<close>

lemma broadcast_unfold:
  "\<not> locked m \<Longrightarrow>
   broadcast env msg m =
     (if snd (send_all env msg (active_connections m)) = []
      then (Returned, m\<lparr>delivered := delivered m @ fst (send_all env msg (active_connections m))\<rparr>)
      else (Blocked, m\<lparr>locked := True,
              delivered := delivered m @ fst (send_all env msg (active_connections m))\<rparr>))"
  by (simp add: broadcast_def with_lock_def disconnect_each_locked split: prod.splits)

lemma broadcast_locked: "locked m \<Longrightarrow> broadcast env msg m = (Blocked, m)"
  by (simp add: broadcast_def with_lock_def)

lemma broadcast_keeps_connections:
  "active_connections (snd (broadcast env msg m)) = active_connections m"
  by (cases "locked m") (simp_all add: broadcast_unfold broadcast_locked)

lemma broadcast_blocks_iff:
  "\<not> locked m \<Longrightarrow>
   (fst (broadcast env msg m) = Blocked) =
   (\<exists>w \<in> set (active_connections m). client_state env w = CONNECTED \<and> \<not> send_json_ok env w)"
  by (auto simp: broadcast_unfold send_all_snd filter_empty_conv)

lemma broadcast_delivers:
  "\<not> locked m \<Longrightarrow>
   delivered (snd (broadcast env msg m)) =
     delivered m @ map (\<lambda>w. (w, msg))
       (filter (\<lambda>w. client_state env w = CONNECTED \<and> send_json_ok env w) (active_connections m))"
  by (simp add: broadcast_unfold send_all_fst)

text \<open>
  Claim C1, evaluated on the code. The registry holds subscriber 1, whose send raises, and
  the healthy subscriber 2. The message reaches subscriber 2 and the error of subscriber 1
  is caught, but the clean-up calls \<open>disconnect\<close> while \<open>broadcast\<close> still holds the
  lock: the call never returns, both subscribers stay registered and the lock stays held.
  For every registry, \<open>broadcast\<close> leaves \<open>active_connections\<close> as it was.
\<close>

theorem broadcast_failed_send_blocks:
  "broadcast flaky_env msg \<lparr>active_connections = [1, 2], locked = False, delivered = []\<rparr>
     = (Blocked, \<lparr>active_connections = [1, 2], locked = True, delivered = [(2, msg)]\<rparr>) \<and>
   active_connections (snd (broadcast env message m)) = active_connections m"
proof
  show "broadcast flaky_env msg \<lparr>active_connections = [1, 2], locked = False, delivered = []\<rparr>
     = (Blocked, \<lparr>active_connections = [1, 2], locked = True, delivered = [(2, msg)]\<rparr>)"
    by (simp add: broadcast_unfold flaky_env_def)
  show "active_connections (snd (broadcast env message m)) = active_connections m"
    by (cases "locked m") (simp_all add: broadcast_unfold broadcast_locked)
qed

text \<open>
  A subscriber that is already in state \<open>DISCONNECTED\<close> is skipped by the state test: no
  send is tried, nothing is raised, and the subscriber stays registered.
\<close>

lemma broadcast_disconnected_subscriber_stays:
  "broadcast gone_env msg \<lparr>active_connections = [1, 2], locked = False, delivered = []\<rparr>
     = (Returned, \<lparr>active_connections = [1, 2], locked = False, delivered = [(2, msg)]\<rparr>)"
  by (simp add: broadcast_unfold gone_env_def)








section \<open>The telemetry ingestion loop: proofs\<close>




section \<open>Integers as text and the cursor: proofs\<close>








lemma py_strip_id: "s \<noteq> [] \<Longrightarrow> \<not> py_isspace (hd s) \<Longrightarrow> \<not> py_isspace (last s) \<Longrightarrow> py_strip s = s"
proof -
  assume a: "s \<noteq> []" "\<not> py_isspace (hd s)" "\<not> py_isspace (last s)"
  then have 1: "dropWhile py_isspace s = s" by (cases s) simp_all
  from a have "rev s \<noteq> []" "\<not> py_isspace (hd (rev s))" by (simp_all add: hd_rev)
  then have 2: "dropWhile py_isspace (rev s) = rev s" by (cases "rev s") simp_all
  show ?thesis by (simp add: py_strip_def 1 2)
qed






lemma split_bar_none: "(split_bar s = None) = (CHR ''|'' \<notin> set s)"
  by (induction s) (auto split: option.splits)


section \<open>The alert listing: proofs\<close>

lemma map_rows_Inr: "(\<And>x. x \<in> set xs \<Longrightarrow> f x = Inr (g x)) \<Longrightarrow> map_rows f xs = Inr (map g xs)"
  by (induction xs) simp_all

lemma alerts_query_rows:
  "alerts_query db filters lim = map (\<lambda>r. \<lparr>cols = ALERT_COLUMNS, src = r\<rparr>) (matching_alerts db filters lim)"
  by (simp add: alerts_query_def matching_alerts_def)

lemma alert_dict_query_row:
  "alert_dict lib \<lparr>cols = ALERT_COLUMNS, src = r\<rparr> = Inr (alert_json lib r)"
  by (simp add: alert_dict_def getattr_def ALERT_COLUMNS_def alert_json_def)

lemma map_rows_alert_dict:
  "map_rows (alert_dict lib) (alerts_query db filters lim) =
     Inr (map (alert_json lib) (matching_alerts db filters lim))"
proof -
  have "map_rows (alert_dict lib) (alerts_query db filters lim) =
        Inr (map (\<lambda>q. alert_json lib (src q)) (alerts_query db filters lim))"
    by (rule map_rows_Inr) (auto simp: alerts_query_rows alert_dict_query_row)
  then show ?thesis by (simp add: alerts_query_rows comp_def)
qed

lemma next_cursor_query:
  "next_cursor_of lib (alerts_query db filters lim) lim' =
     (if matching_alerts db filters lim \<noteq> [] \<and> int (length (matching_alerts db filters lim)) = lim'
         \<and> alert_started_at (last (matching_alerts db filters lim)) \<noteq> None
      then Inl AttributeError else Inr None)"
  by (auto simp: next_cursor_of_def alerts_query_rows last_map getattr_def ALERT_COLUMNS_def
           split: option.splits)

lemma alert_listing_closed:
  "alert_listing lib db p =
     (let rows = matching_alerts db (alert_filters lib p) (limit p)
      in if rows \<noteq> [] \<and> int (length rows) = limit p \<and> alert_started_at (last rows) \<noteq> None
         then Inl AttributeError
         else Inr [(''alerts'', PList (map (alert_json lib) rows))])"
  by (simp add: alert_listing_def Let_def map_rows_alert_dict next_cursor_query)

lemma with_summaries_shape:
  "with_summaries lib db now p modes out = Inr v \<Longrightarrow>
   \<exists>d. v = PDict d \<and> (d = out \<or> (\<exists>s. d = dict_set out ''summaries'' s))"
proof -
  assume a: "with_summaries lib db now p modes out = Inr v"
  show ?thesis
  proof (cases "modes = []")
    case True
    with a show ?thesis by (auto simp: with_summaries_def)
  next
    case False
    with a obtain ws where ws: "minus_minutes lib now (window_minutes p) = Some ws"
      by (cases "minus_minutes lib now (window_minutes p)") (simp_all add: with_summaries_def)
    let ?t = "if ''timeseries'' \<in> set modes then timeseries_part lib db p ws else Inr []"
    from a False ws obtain s1 where "?t = Inr s1"
      by (cases ?t) (simp_all add: with_summaries_def)
    with a False ws show ?thesis by (auto simp: with_summaries_def)
  qed
qed

lemma has_key_dict_set: "has_key (dict_set d k v) k' = (k' = k \<or> has_key d k')"
  by (induction d k v rule: dict_set.induct) (auto simp: has_key_def)

lemma fetch_never_paginates:
  "snd (fetch_insights lib db now p) = Inr v \<Longrightarrow> \<exists>d. v = PDict d \<and> \<not> has_key d ''pagination''"
proof -
  assume a: "snd (fetch_insights lib db now p) = Inr v"
  let ?p = "p\<lparr>limit := max 1 (min (limit p) 100), timeseries_limit := max 10 (min (timeseries_limit p) 2000)\<rparr>"
  from a obtain out where o: "alert_listing lib db ?p = Inr out"
     and w: "with_summaries lib db now ?p (derive_modes ?p) out = Inr v"
    by (cases "alert_listing lib db ?p") (auto simp: fetch_insights_def Let_def)
  from o have k: "\<not> has_key out ''pagination''"
    by (auto simp: alert_listing_closed Let_def has_key_def split: if_splits)
  from with_summaries_shape [OF w] k show ?thesis by (auto simp: has_key_dict_set)
qed









lemma example_page:
  "matching_alerts example_store [] 3 = [mk_alert 40 3, mk_alert 30 2, mk_alert 20 2]"
  by (simp add: matching_alerts_def example_store_def order_by_def alert_before_def mk_alert_def)

lemma one_page:
  "matching_alerts one_alert_store [] 1 = [mk_alert 10 1]"
  by (simp add: matching_alerts_def one_alert_store_def order_by_def)

lemma filters_none:
  "auv_id p = None \<Longrightarrow> type p = None \<Longrightarrow> since p = None \<Longrightarrow> cursor p = None \<Longrightarrow>
   alert_filters lib p = []"
  by (simp add: alert_filters_def cursor_filters_def)

section \<open>Points and the timeseries summary: proofs\<close>

lemma split_ws_run:
  "list_all (\<lambda>c. \<not> py_isspace c) a \<Longrightarrow> split_ws cur (a @ rest) = split_ws (cur @ a) rest"
  by (induction a arbitrary: cur) simp_all

lemma space_is_space: "py_isspace (CHR '' '')"
  by (simp add: py_isspace_def)

lemma py_split_two:
  assumes "a \<noteq> []" "b \<noteq> []" "list_all (\<lambda>c. \<not> py_isspace c) a" "list_all (\<lambda>c. \<not> py_isspace c) b"
  shows "py_split (a @ CHR '' '' # b) = [a, b]"
proof -
  have "split_ws [] (a @ CHR '' '' # b) = split_ws a (CHR '' '' # b)"
    using split_ws_run [OF assms(3), of "[]"] by simp
  also have "\<dots> = a # split_ws [] b" using assms(1) by (simp add: space_is_space)
  also have "split_ws [] b = split_ws b []"
    using split_ws_run [OF assms(4), of "[]" "[]"] by simp
  finally show ?thesis using assms(2) by (simp add: py_split_def)
qed

lemma word_parts:
  assumes "word s"
  shows "s \<noteq> [] \<and> list_all (\<lambda>c. \<not> py_isspace c) s \<and> py_replace_char s (CHR '','') (CHR '' '') = s"
proof -
  have a: "s \<noteq> []" and b: "\<And>c. c \<in> set s \<Longrightarrow> \<not> py_isspace c \<and> c \<noteq> CHR '',''"
    using assms by (simp_all add: word_def list_all_iff)
  have "map (\<lambda>c. if c = CHR '','' then CHR '' '' else c) s = s"
    by (rule map_idI) (simp add: b)
  with a b show ?thesis by (simp add: py_replace_char_def list_all_iff)
qed

lemma parse_point_text:
  assumes "word a" "word b"
  shows "parse_point_wkt lib (Some (point_text a b)) =
     (case py_float lib a of
        None \<Rightarrow> None
      | Some lon \<Rightarrow> (case py_float lib b of None \<Rightarrow> None | Some lat \<Rightarrow> Some (lon, lat)))"
proof -
  let ?s = "point_text a b"
  have s: "?s = CHR ''P'' # CHR ''O'' # CHR ''I'' # CHR ''N'' # CHR ''T'' # CHR ''('' # (a @ CHR '' '' # b) @ [CHR '')'']"
    by (simp add: point_text_def)
  have st: "py_strip ?s = ?s"
    by (rule py_strip_id) (simp_all add: s py_isspace_def)
  have up: "startswith (py_upper ?s) ''POINT(''"
    by (simp add: s startswith_def py_upper_def py_upper_char_def)
  have en: "endswith ?s '')''"
    by (simp add: s endswith_def)
  have fi: "py_find ?s (CHR ''('') = 5"
    by (simp add: s)
  have sl: "slice_to_last ?s 6 = a @ CHR '' '' # b"
    unfolding s slice_to_last_def by (simp add: butlast_append)
  have rp: "py_replace_char (a @ CHR '' '' # b) (CHR '','') (CHR '' '') = a @ CHR '' '' # b"
    using word_parts [OF assms(1)] word_parts [OF assms(2)] by (simp add: py_replace_char_def)
  have sp: "py_split (a @ CHR '' '' # b) = [a, b]"
    using word_parts [OF assms(1)] word_parts [OF assms(2)] by (intro py_split_two) simp_all
  have ne: "?s \<noteq> []" by (simp add: s)
  show ?thesis
    unfolding parse_point_wkt_def using ne
    by (simp add: st up en fi sl rp sp del: py_find.simps)
qed

lemma parse_garbage: "parse_point_wkt lib (Some ''GARBAGE'') = None"
  by (simp add: parse_point_wkt_def py_strip_def py_isspace_def startswith_def py_upper_def py_upper_char_def)


lemma parse_example:
  "parse_point_wkt lib (Some ''POINT(12.5 -3.2)'') =
     (case py_float lib ''12.5'' of
        None \<Rightarrow> None
      | Some lon \<Rightarrow> (case py_float lib ''-3.2'' of None \<Rightarrow> None | Some lat \<Rightarrow> Some (lon, lat)))"
  using parse_point_text [of "''12.5''" "''-3.2''" lib]
  by (simp add: point_text_def word_def py_isspace_def)

lemma dict_set_new: "k \<notin> fst ` set d \<Longrightarrow> dict_set d k v = d @ [(k, v)]"
  by (induction d k v rule: dict_set.induct) auto

lemma make_point_closed:
  "make_point lib req \<lparr>cols = TELEMETRY_COLUMNS, src = r\<rparr> = Inr (PDict (point_dict lib req r))"
  unfolding make_point_def getattr_def TELEMETRY_COLUMNS_def set_field_def point_dict_def
  by (cases "''temperature_c'' \<in> set req"; cases "''depth_m'' \<in> set req";
      cases "''velocity_knots'' \<in> set req"; cases "''location'' \<in> set req") simp_all

lemma telemetry_query_cols:
  "q \<in> set (telemetry_query db auv ws lim) \<Longrightarrow> cols q = TELEMETRY_COLUMNS"
  by (auto simp: telemetry_query_def)

lemma timeseries_points:
  "map_rows (make_point lib req) (telemetry_query db auv ws lim) =
     Inr (map (\<lambda>q. PDict (point_dict lib req (src q))) (telemetry_query db auv ws lim))"
proof (rule map_rows_Inr)
  fix q assume "q \<in> set (telemetry_query db auv ws lim)"
  then have "q = \<lparr>cols = TELEMETRY_COLUMNS, src = src q\<rparr>" by (auto simp: telemetry_query_def)
  then show "make_point lib req q = Inr (PDict (point_dict lib req (src q)))"
    using make_point_closed [of lib req "src q"] by simp
qed

lemma timeseries_part_closed:
  "timeseries_part lib db p ws =
     (if \<not> truthy (auv_id p)
      then Inr [(''timeseries_error'', PStr ''timeseries summary requires auv_id'')]
      else Inr [(''timeseries'',
             PDict [(''auv_id'', PStr (items (auv_id p))),
                    (''window_minutes'', PInt (window_minutes p)),
                    (''fields'', PList (map PStr (requested_fields p))),
                    (''points'', PList (map (\<lambda>q. PDict (point_dict lib (requested_fields p) (src q)))
                        (telemetry_query db (items (auv_id p)) ws (timeseries_limit p)))),
                    (''count'', PInt (int (length
                        (telemetry_query db (items (auv_id p)) ws (timeseries_limit p)))))])])"
  by (simp add: timeseries_part_def timeseries_points)

lemma point_dict_timestamp:
  "has_key (point_dict lib req r) ''timestamp'' \<and>
   map_of (point_dict lib req r) ''timestamp'' = Some (opt_iso lib (tm_timestamp r))"
  by (simp add: point_dict_def has_key_def)


lemma timeseries_error_emitted:
  assumes "alert_listing lib db (p\<lparr>limit := max 1 (min (limit p) 100),
              timeseries_limit := max 10 (min (timeseries_limit p) 2000)\<rparr>) = Inr out"
    and "minus_minutes lib now (window_minutes p) = Some ws"
    and "''timeseries'' \<in> set (derive_modes p)"
    and "\<not> truthy (auv_id p)"
  shows "\<exists>s. snd (fetch_insights lib db now p) = Inr (PDict (out @ [(''summaries'', PDict s)])) \<and>
     has_key s ''timeseries_error'' \<and> \<not> has_key s ''timeseries''"
proof -
  let ?p = "p\<lparr>limit := max 1 (min (limit p) 100),
              timeseries_limit := max 10 (min (timeseries_limit p) 2000)\<rparr>"
  have dm: "derive_modes ?p = derive_modes p" by (simp add: derive_modes_def)
  have o: "out = [(''alerts'', PList (map (alert_json lib)
              (matching_alerts db (alert_filters lib ?p) (limit ?p))))]"
    using assms(1) by (auto simp: alert_listing_closed Let_def split: if_splits)
  have ds: "dict_set out ''summaries'' v = out @ [(''summaries'', v)]" for v
    by (simp add: o)
  have ne: "derive_modes p \<noteq> []" using assms(3) by auto
  let ?s = "if ''stats'' \<in> set (derive_modes p)
            then dict_set [(''timeseries_error'', PStr ''timeseries summary requires auv_id'')]
                   ''stats'' (stats_summary lib db ?p ws)
            else [(''timeseries_error'', PStr ''timeseries summary requires auv_id'')]"
  have "snd (fetch_insights lib db now p) = Inr (PDict (out @ [(''summaries'', PDict ?s)]))"
    using assms ne unfolding fetch_insights_def Let_def snd_conv dm
    by (simp add: with_summaries_def timeseries_part_closed ds)
  moreover have "has_key ?s ''timeseries_error'' \<and> \<not> has_key ?s ''timeseries''"
    by (simp add: has_key_def)
  ultimately show ?thesis by blast
qed

text \<open>
  A whole call on two telemetry rows, one with the location \<open>GARBAGE\<close> and one with
  \<open>POINT(12.5 -3.2)\<close>: the query returns both points, the first with a null location.
\<close>

lemma telemetry_example_rows:
  "telemetry_query telemetry_store ''auv-1'' (-200) 30 =
     [\<lparr>cols = TELEMETRY_COLUMNS, src = garbage_row\<rparr>, \<lparr>cols = TELEMETRY_COLUMNS, src = point_row\<rparr>]"
proof -
  have a: "tm_auv_id garbage_row = ''auv-1''" "tm_timestamp garbage_row = Some 100"
          "tm_auv_id point_row = ''auv-1''" "tm_timestamp point_row = Some 101"
    by (simp_all add: garbage_row_def point_row_def)
  show ?thesis
    by (simp add: telemetry_query_def telemetry_store_def order_by_def timestamp_before_def a)
qed

lemma timeseries_example:
  "snd (fetch_insights demo_lib telemetry_store 1000
          (default_params\<lparr>summary := True, auv_id := Some ''auv-1'', timeseries_fields := Some [''location'']\<rparr>)) =
   Inr (PDict
     [(''alerts'', PList []),
      (''summaries'', PDict
        [(''timeseries'', PDict
           [(''auv_id'', PStr ''auv-1''), (''window_minutes'', PInt 20),
            (''fields'', PList [PStr ''location'']),
            (''points'', PList
               [PDict [(''timestamp'', PStr (py_str 100)), (''location'', PNone)],
                PDict [(''timestamp'', PStr (py_str 101)),
                       (''location'', PDict [(''lon'', PFloat ''12.5''), (''lat'', PFloat ''-3.2'')])]]),
            (''count'', PInt 2)])])])"
proof -
  let ?p = "default_params\<lparr>summary := True, auv_id := Some ''auv-1'', timeseries_fields := Some [''location'']\<rparr>"
  define q where "q = ?p\<lparr>limit := max 1 (min (limit ?p) 100),
                        timeseries_limit := max 10 (min (timeseries_limit ?p) 2000)\<rparr>"
  have fi: "snd (fetch_insights demo_lib telemetry_store 1000 ?p) =
      and_then (alert_listing demo_lib telemetry_store q)
        (with_summaries demo_lib telemetry_store 1000 q (derive_modes q))"
    by (simp add: fetch_insights_def Let_def q_def)
  have al: "alert_listing demo_lib telemetry_store q = Inr [(''alerts'', PList [])]"
    by (simp add: alert_listing_closed Let_def matching_alerts_def telemetry_store_def order_by_def)
  have dm: "derive_modes q = [''timeseries'']"
    by (simp add: q_def derive_modes_def default_params_def SUMMARY_MODES_ALLOWED_def)
  have mm: "minus_minutes demo_lib 1000 (window_minutes q) = Some (-200)"
    by (simp add: q_def demo_lib_def default_params_def)
  have rf: "requested_fields q = [''location'']"
    by (simp add: q_def requested_fields_def TIMESERIES_ALLOWED_FIELDS_def)
  have q: "truthy (auv_id q)" "items (auv_id q) = ''auv-1''" "timeseries_limit q = 30"
          "window_minutes q = 20"
    by (simp_all add: q_def default_params_def)
  have f: "py_float demo_lib ''12.5'' = Some ''12.5''" "py_float demo_lib ''-3.2'' = Some ''-3.2''"
    by (simp_all add: demo_lib_def is_digit_def)
  have iso: "isoformat demo_lib = py_str" by (simp add: demo_lib_def)
  have pd1: "point_dict demo_lib [''location''] garbage_row =
              [(''timestamp'', PStr (py_str 100)), (''location'', PNone)]"
    by (simp add: point_dict_def garbage_row_def parse_garbage location_value_def iso)
  have pd2: "point_dict demo_lib [''location''] point_row =
              [(''timestamp'', PStr (py_str 101)),
               (''location'', PDict [(''lon'', PFloat ''12.5''), (''lat'', PFloat ''-3.2'')])]"
    by (simp add: point_dict_def point_row_def parse_example location_value_def f iso)
  have ts: "timeseries_part demo_lib telemetry_store q (-200) =
     Inr [(''timeseries'', PDict
           [(''auv_id'', PStr ''auv-1''), (''window_minutes'', PInt 20),
            (''fields'', PList [PStr ''location'']),
            (''points'', PList
               [PDict [(''timestamp'', PStr (py_str 100)), (''location'', PNone)],
                PDict [(''timestamp'', PStr (py_str 101)),
                       (''location'', PDict [(''lon'', PFloat ''12.5''), (''lat'', PFloat ''-3.2'')])]]),
            (''count'', PInt 2)])]"
    by (simp add: timeseries_part_closed rf q telemetry_example_rows pd1 pd2)
  show ?thesis
    by (simp add: fi al dm with_summaries_def mm ts)
qed

section \<open>The order and the bound of the alert listing: proofs\<close>

text \<open>
  The rows of a page are stored alerts that satisfy every filter clause, they stand in the
  order \<open>(started_at DESC, id DESC)\<close>, and there are at most \<open>limit\<close> of them.
\<close>

lemma set_insert_by: "set (insert_by le x xs) = insert x (set xs)"
  by (induction xs) auto

lemma length_insert_by: "length (insert_by le x xs) = Suc (length xs)"
  by (induction xs) auto

lemma sorted_insert_by:
  assumes total: "\<And>x y. \<not> le x y \<Longrightarrow> le y x"
    and trans: "\<And>x y z. le x y \<Longrightarrow> le y z \<Longrightarrow> le x z"
  shows "sorted_wrt le xs \<Longrightarrow> sorted_wrt le (insert_by le x xs)"
proof (induction xs)
  case Nil
  then show ?case by simp
next
  case (Cons y ys)
  show ?case
  proof (cases "le x y")
    case True
    then have "\<forall>z \<in> set ys. le x z" using Cons.prems trans by auto
    with True Cons.prems show ?thesis by simp
  next
    case False
    then have "le y x" by (rule total)
    with False Cons show ?thesis by (auto simp: set_insert_by)
  qed
qed

lemma sorted_order_by:
  assumes "\<And>x y. \<not> le x y \<Longrightarrow> le y x" and "\<And>x y z. le x y \<Longrightarrow> le y z \<Longrightarrow> le x z"
  shows "sorted_wrt le (order_by le xs)"
  unfolding order_by_def
  by (induction xs) (simp_all add: sorted_insert_by [of le, OF assms])

lemma set_order_by: "set (order_by le xs) = set xs"
  unfolding order_by_def by (induction xs) (simp_all add: set_insert_by)

lemma length_order_by: "length (order_by le xs) = length xs"
  unfolding order_by_def by (induction xs) (simp_all add: length_insert_by)

lemma alert_before_total: "\<not> alert_before nf x y \<Longrightarrow> alert_before nf y x"
  by (auto simp: alert_before_def split: option.splits)

lemma alert_before_trans: "alert_before nf x y \<Longrightarrow> alert_before nf y z \<Longrightarrow> alert_before nf x z"
  by (auto simp: alert_before_def split: option.splits)

lemma sorted_wrt_take: "sorted_wrt le xs \<Longrightarrow> sorted_wrt le (take n xs)"
  by (induction xs arbitrary: n) (auto simp: take_Cons split: nat.splits dest: in_set_takeD)

lemma listing_ordered_bounded:
  "sorted_wrt (alert_before (nulls_first db)) (matching_alerts db filters lim) \<and>
   length (matching_alerts db filters lim) \<le> nat lim \<and>
   set (matching_alerts db filters lim)
     \<subseteq> {r \<in> set (alerts db). list_all (\<lambda>c. clause_holds c r) filters}"
proof (intro conjI)
  show "sorted_wrt (alert_before (nulls_first db)) (matching_alerts db filters lim)"
    unfolding matching_alerts_def
  proof (rule sorted_wrt_take, rule sorted_order_by)
    fix x y z :: alert_row
    show "\<not> alert_before (nulls_first db) x y \<Longrightarrow> alert_before (nulls_first db) y x"
      by (rule alert_before_total)
    show "alert_before (nulls_first db) x y \<Longrightarrow> alert_before (nulls_first db) y z
          \<Longrightarrow> alert_before (nulls_first db) x z"
      by (rule alert_before_trans)
  qed
  show "length (matching_alerts db filters lim) \<le> nat lim"
    by (simp add: matching_alerts_def)
  show "set (matching_alerts db filters lim)
     \<subseteq> {r \<in> set (alerts db). list_all (\<lambda>c. clause_holds c r) filters}"
    unfolding matching_alerts_def using set_take_subset [of "nat lim"]
    by (fastforce simp: set_order_by)
qed

section \<open>The claims on the insights query\<close>

lemma full_page_raises:
  assumes "p' = p\<lparr>limit := max 1 (min (limit p) 100),
                   timeseries_limit := max 10 (min (timeseries_limit p) 2000)\<rparr>"
    and "rows = matching_alerts db (alert_filters lib p') (limit p')"
    and "rows \<noteq> []" and "int (length rows) = limit p'"
    and "alert_started_at (last rows) \<noteq> None"
  shows "snd (fetch_insights lib db now p) = Inl AttributeError"
  using assms by (simp add: fetch_insights_def Let_def alert_listing_closed)

text \<open>
  Claim C2, evaluated on the code. On the alerts of the specification's example and
  \<open>limit = 3\<close> the query yields the rows with ids 40, 30, 20 in that order. The page is
  full, so line 124 reads \<^verbatim>\<open>last.id\<close>; the \<^verbatim>\<open>SELECT\<close> list of lines 98--99 has no
  column \<open>id\<close>, the read raises \<^verbatim>\<open>AttributeError\<close>, and the call returns no
  listing and no cursor.
\<close>

theorem full_page_raises_attribute_error:
  "map (alert_id \<circ> src)
     (alerts_query example_store (alert_filters lib (default_params\<lparr>limit := 3\<rparr>)) 3)
     = [40, 30, 20] \<and>
   snd (fetch_insights lib example_store now (default_params\<lparr>limit := 3\<rparr>))
     = Inl AttributeError"
proof
  let ?p = "default_params\<lparr>limit := 3\<rparr>"
  have f0: "alert_filters lib ?p = []"
    by (rule filters_none) (simp_all add: default_params_def)
  show "map (alert_id \<circ> src) (alerts_query example_store (alert_filters lib ?p) 3) = [40, 30, 20]"
    by (simp add: f0 alerts_query_rows example_page mk_alert_def)
  have l: "max 1 (min (limit ?p) 100) = 3" by simp
  have "alert_listing lib example_store (?p\<lparr>limit := 3, timeseries_limit := t\<rparr>)
          = Inl AttributeError" for t
    by (simp add: alert_listing_closed Let_def filters_none default_params_def example_page
          mk_alert_def)
  then show "snd (fetch_insights lib example_store now ?p) = Inl AttributeError"
    unfolding fetch_insights_def Let_def snd_conv l by simp
qed



text \<open>
  When the listing step returns, a request for the \<open>timeseries\<close> mode without a vehicle
  filter gets the \<open>timeseries_error\<close> entry, no \<open>timeseries\<close> entry, and the listing
  as it is (lemma \<open>timeseries_error_emitted\<close>).

  Claim C6, evaluated on the code. With one stored alert, \<open>limit = 1\<close>, \<open>summary = true\<close>
  and no vehicle filter, the \<open>timeseries\<close> mode is active, the page is full, and the
  call raises \<^verbatim>\<open>AttributeError\<close> at line 124 before any summary is built: there is
  neither a \<open>timeseries_error\<close> entry nor a listing.
\<close>

theorem timeseries_request_raises_on_full_page:
  "derive_modes (default_params\<lparr>limit := 1, summary := True\<rparr>) = [''timeseries''] \<and>
   auv_id (default_params\<lparr>limit := 1, summary := True\<rparr>) = None \<and>
   snd (fetch_insights lib one_alert_store now (default_params\<lparr>limit := 1, summary := True\<rparr>))
     = Inl AttributeError"
proof (intro conjI)
  let ?p = "default_params\<lparr>limit := 1, summary := True\<rparr>"
  show "derive_modes ?p = [''timeseries'']"
    by (simp add: derive_modes_def default_params_def SUMMARY_MODES_ALLOWED_def)
  show "auv_id ?p = None" by (simp add: default_params_def)
  have l: "max 1 (min (limit ?p) 100) = 1" by simp
  have "alert_listing lib one_alert_store (?p\<lparr>limit := 1, timeseries_limit := t\<rparr>)
          = Inl AttributeError" for t
    by (simp add: alert_listing_closed Let_def filters_none default_params_def one_page
          mk_alert_def)
  then show "snd (fetch_insights lib one_alert_store now ?p) = Inl AttributeError"
    unfolding fetch_insights_def Let_def snd_conv l by simp
qed



text \<open>
  Claim C9, as the code has it. A caller's \<^verbatim>\<open>InsightParams\<close> with \<open>limit = 500\<close> comes
  back from the call with \<open>limit = 100\<close>.
\<close>

theorem params_mutated_counterexample:
  "fst (fetch_insights demo_lib empty_store 0 (default_params\<lparr>limit := 500\<rparr>))
     \<noteq> default_params\<lparr>limit := 500\<rparr> \<and>
   limit (fst (fetch_insights demo_lib empty_store 0 (default_params\<lparr>limit := 500\<rparr>))) = 100"
  by (simp add: fetch_insights_def Let_def default_params_def)

text \<open>
  Claim C9, amended. The call overwrites two fields of the caller's parameters with their
  clamped values, \<open>limit\<close> with \<open>max 1 (min limit 100)\<close> and \<open>timeseries_limit\<close> with
  \<open>max 10 (min timeseries_limit 2000)\<close>, also when it raises, and changes no other field;
  the parameters are left as they were exactly when both values were within their bounds.
\<close>

theorem params_after_call:
  "fst (fetch_insights lib db now p) =
     p\<lparr>limit := max 1 (min (limit p) 100),
       timeseries_limit := max 10 (min (timeseries_limit p) 2000)\<rparr> \<and>
   (fst (fetch_insights lib db now p) = p) =
     (1 \<le> limit p \<and> limit p \<le> 100 \<and> 10 \<le> timeseries_limit p \<and> timeseries_limit p \<le> 2000)"
  by (cases p) (auto simp: fetch_insights_def Let_def)

text \<open>
  Claim C10. Whatever fields are requested, the point built for a telemetry row has the
  key \<open>timestamp\<close>; its value is the ISO text of the row's timestamp, and null when the
  row has none, and nothing is raised. The points of a timeseries summary are exactly
  these points, one for each row of the query.
\<close>

theorem point_has_timestamp:
  "make_point lib req \<lparr>cols = TELEMETRY_COLUMNS, src = r\<rparr> = Inr (PDict (point_dict lib req r)) \<and>
   has_key (point_dict lib req r) ''timestamp'' \<and>
   map_of (point_dict lib req r) ''timestamp'' = Some (opt_iso lib (tm_timestamp r)) \<and>
   opt_iso lib None = PNone \<and>
   timeseries_part lib db p ws =
     (if \<not> truthy (auv_id p)
      then Inr [(''timeseries_error'', PStr ''timeseries summary requires auv_id'')]
      else Inr [(''timeseries'',
             PDict [(''auv_id'', PStr (items (auv_id p))),
                    (''window_minutes'', PInt (window_minutes p)),
                    (''fields'', PList (map PStr (requested_fields p))),
                    (''points'', PList (map (\<lambda>q. PDict (point_dict lib (requested_fields p) (src q)))
                        (telemetry_query db (items (auv_id p)) ws (timeseries_limit p)))),
                    (''count'', PInt (int (length
                        (telemetry_query db (items (auv_id p)) ws (timeseries_limit p)))))])])"
proof (intro conjI)
  show "make_point lib req \<lparr>cols = TELEMETRY_COLUMNS, src = r\<rparr> = Inr (PDict (point_dict lib req r))"
    by (rule make_point_closed)
  show "has_key (point_dict lib req r) ''timestamp''"
    by (simp add: point_dict_timestamp)
  show "map_of (point_dict lib req r) ''timestamp'' = Some (opt_iso lib (tm_timestamp r))"
    by (simp add: point_dict_timestamp)
  show "opt_iso lib None = PNone" by simp
  show "timeseries_part lib db p ws =
     (if \<not> truthy (auv_id p)
      then Inr [(''timeseries_error'', PStr ''timeseries summary requires auv_id'')]
      else Inr [(''timeseries'',
             PDict [(''auv_id'', PStr (items (auv_id p))),
                    (''window_minutes'', PInt (window_minutes p)),
                    (''fields'', PList (map PStr (requested_fields p))),
                    (''points'', PList (map (\<lambda>q. PDict (point_dict lib (requested_fields p) (src q)))
                        (telemetry_query db (items (auv_id p)) ws (timeseries_limit p)))),
                    (''count'', PInt (int (length
                        (telemetry_query db (items (auv_id p)) ws (timeseries_limit p)))))])])"
    by (rule timeseries_part_closed)
qed

end
